theory Spec2Isabelle
  imports Main
begin

section \<open>The pending transaction tracker\<close>

text \<open>
  A shallow embedding of \<^verbatim>\<open>PendingTransactionTracker\<close>. The class holds its
  collaborators and one piece of state of its own, the map
  \<^verbatim>\<open>droppedBlocksBufferByHash\<close>. Every method becomes a function that takes the
  tracker, returns the tracker it leaves behind, the items it annotated and the list of
  effects it had on the outside, in the order the method performs them: notifications
  emitted, ledger queries, broadcast and approve calls, lock operations and log entries.
  A notification is an output of the tracker: what its receivers do, also to the item
  that a notification hands them, is not part of the tracker.

  The per-item evaluations of one batch run concurrently. Each has its own list of
  effects, and a batch returns one list per item: no order is stated between the effects
  of two items, nor between them and the effects of the batch method itself. The
  evaluations share nothing but the buffer map, which each of them reads and writes at
  the key of its own hash in one step that nothing interrupts (the code after the last
  \<^verbatim>\<open>await\<close> of \<^verbatim>\<open>_checkIfTxWasDropped\<close>); the embedding passes the map from
  item to item in list order.
\<close>

subsection \<open>JavaScript values\<close>

text \<open>
  An optional string is \<^verbatim>\<open>undefined\<close> (\<open>None\<close>) or a string. It is falsy when it
  is \<^verbatim>\<open>undefined\<close> or empty.
\<close>

definition truthy :: "string option \<Rightarrow> bool" where
  "truthy s = (case s of None \<Rightarrow> False | Some v \<Rightarrow> v \<noteq> [])"

text \<open>
  An \<^verbatim>\<open>Error\<close> object: its name, its message and the message of the optional
  \<^verbatim>\<open>value\<close> object some RPC errors carry.
\<close>

record js_error =
  err_name :: string
  err_message :: string
  err_value_message :: "string option"

definition notAFunction :: "string \<Rightarrow> js_error" where
  "notAFunction nm =
     \<lparr>err_name = ''TypeError'', err_message = ''this.'' @ nm @ '' is not a function'',
      err_value_message = None\<rparr>"

definition cannotReadProperty :: "string \<Rightarrow> js_error" where
  "cannotReadProperty nm =
     \<lparr>err_name = ''TypeError'',
      err_message = ''Cannot read properties of undefined (reading '' @ nm @ '')'',
      err_value_message = None\<rparr>"

definition cannotDestructure :: "string \<Rightarrow> js_error" where
  "cannotDestructure nm =
     \<lparr>err_name = ''TypeError'',
      err_message = ''Cannot destructure property '' @ nm @ '' of null'',
      err_value_message = None\<rparr>"

subsubsection \<open>\<^verbatim>\<open>Number.parseInt(s, 16)\<close>\<close>

text \<open>
  The result is a number or \<^verbatim>\<open>NaN\<close> (\<open>None\<close>): leading white space is skipped, then
  an optional sign, then an optional \<^verbatim>\<open>0x\<close>, then the longest run of hexadecimal
  digits; no digit at all gives \<^verbatim>\<open>NaN\<close>. Strings are byte strings, so white space
  is the ASCII white space, and the value is the exact integer.
\<close>

definition isWhiteSpace :: "char \<Rightarrow> bool" where
  "isWhiteSpace c = (c \<in> set [CHR 0x09, CHR 0x0A, CHR 0x0B, CHR 0x0C, CHR 0x0D, CHR '' ''])"

definition hexDigit :: "char \<Rightarrow> nat option" where
  "hexDigit c =
     (let n = (of_char c :: nat) in
      if 48 \<le> n \<and> n \<le> 57 then Some (n - 48)
      else if 97 \<le> n \<and> n \<le> 102 then Some (n - 87)
      else if 65 \<le> n \<and> n \<le> 70 then Some (n - 55)
      else None)"

fun hexPrefix :: "nat option \<Rightarrow> string \<Rightarrow> nat option" where
  "hexPrefix acc [] = acc"
| "hexPrefix acc (c # cs) =
     (case hexDigit c of
        None \<Rightarrow> acc
      | Some d \<Rightarrow> hexPrefix (Some (16 * (case acc of None \<Rightarrow> 0 | Some a \<Rightarrow> a) + d)) cs)"

definition parseInt16 :: "string \<Rightarrow> int option" where
  "parseInt16 inputString =
     (let S = dropWhile isWhiteSpace inputString;
          sign = (if S \<noteq> [] \<and> hd S = CHR ''-'' then - 1 else (1::int));
          S1 = (if S \<noteq> [] \<and> (hd S = CHR ''+'' \<or> hd S = CHR ''-'') then tl S else S);
          S2 = (if take 2 S1 = ''0x'' \<or> take 2 S1 = ''0X'' then drop 2 S1 else S1)
      in map_option (\<lambda>m. sign * int m) (hexPrefix None S2))"

text \<open>Comparisons and subtraction of numbers: every comparison with \<^verbatim>\<open>NaN\<close> is false.\<close>

definition js_ge :: "int option \<Rightarrow> int option \<Rightarrow> bool" where
  "js_ge a b = (case (a, b) of (Some x, Some y) \<Rightarrow> x \<ge> y | _ \<Rightarrow> False)"

definition js_le :: "int option \<Rightarrow> int option \<Rightarrow> bool" where
  "js_le a b = (case (a, b) of (Some x, Some y) \<Rightarrow> x \<le> y | _ \<Rightarrow> False)"

definition js_minus :: "int option \<Rightarrow> int option \<Rightarrow> int option" where
  "js_minus a b = (case (a, b) of (Some x, Some y) \<Rightarrow> Some (x - y) | _ \<Rightarrow> None)"

subsubsection \<open>\<^verbatim>\<open>toLowerCase\<close> and \<^verbatim>\<open>includes\<close>\<close>

definition toLowerCaseChar :: "char \<Rightarrow> char" where
  "toLowerCaseChar c =
     (case map_of (zip ''ABCDEFGHIJKLMNOPQRSTUVWXYZ'' ''abcdefghijklmnopqrstuvwxyz'') c of
        Some l \<Rightarrow> l
      | None \<Rightarrow> c)"

definition toLowerCase :: "string \<Rightarrow> string" where
  "toLowerCase s = map toLowerCaseChar s"

fun startsWith :: "string \<Rightarrow> string \<Rightarrow> bool" where
  "startsWith s [] = True"
| "startsWith [] (p # ps) = False"
| "startsWith (c # cs) (p # ps) = (c = p \<and> startsWith cs ps)"

fun includes_str :: "string \<Rightarrow> string \<Rightarrow> bool" where
  "includes_str [] p = (p = [])"
| "includes_str (c # cs) p = (startsWith (c # cs) p \<or> includes_str cs p)"

subsection \<open>Data model\<close>

record tx_params =
  from_addr :: string
  nonce :: string

record tx_warning =
  warning_error :: string
  warning_message :: string

text \<open>
  A tracked item: \<open>txId\<close> is its \<^verbatim>\<open>id\<close>, and \<open>from_addr\<close> is the \<^verbatim>\<open>from\<close> of
  its \<^verbatim>\<open>txParams\<close>. \<open>rawTx = None\<close> means the object has no \<^verbatim>\<open>rawTx\<close> property;
  \<open>retryCount = None\<close> means the count is \<^verbatim>\<open>undefined\<close>. The nonce and the block
  numbers are the hexadecimal strings that the code parses.
\<close>

record txMeta =
  txId :: nat
  status :: string
  hash :: "string option"
  txParams :: tx_params
  rawTx :: "string option"
  firstRetryBlockNumber :: "string option"
  retryCount :: "nat option"
  warning :: "tx_warning option"

text \<open>
  A receipt: \<open>blockNumber = None\<close> is the \<^verbatim>\<open>null\<close> block number of a transaction
  that is not mined yet; a present block number is an object and so truthy.
\<close>

record receipt =
  blockNumber :: "nat option"
  blockHash :: string

record block =
  baseFeePerGas :: "string option"

datatype notification =
    TxConfirmed nat receipt "string option"
  | TxDropped nat
  | TxFailed nat js_error
  | TxWarning txMeta js_error
  | TxRetry txMeta
  | TxBlockUpdate txMeta string

datatype effect =
    Emit notification
  | GetTransactionReceipt string
  | GetBlockByHash string
  | GetTransactionCount string
  | PublishTransaction string
  | ApproveTransaction nat
  | LockAcquired
  | LockReleased
  | LogError string
  | LogErrorObject js_error

fun emitted :: "effect list \<Rightarrow> notification list" where
  "emitted [] = []"
| "emitted (Emit n # es) = n # emitted es"
| "emitted (e # es) = emitted es"

fun isLedgerQuery :: "effect \<Rightarrow> bool" where
  "isLedgerQuery (GetTransactionReceipt h) = True"
| "isLedgerQuery (GetBlockByHash h) = True"
| "isLedgerQuery (GetTransactionCount a) = True"
| "isLedgerQuery e = False"

subsection \<open>Collaborators\<close>

text \<open>
  The ledger query interface. Every query may fail (\<open>Inl\<close>). A receipt or a block that
  the ledger does not have is \<^verbatim>\<open>null\<close> (\<open>None\<close>). \<open>getTransactionCount\<close> gives the
  sender's next nonce, already converted by \<^verbatim>\<open>toNumber()\<close>.
\<close>

record query_iface =
  getTransactionReceipt :: "string \<Rightarrow> js_error + receipt option"
  getBlockByHash :: "string \<Rightarrow> js_error + block option"
  getTransactionCount :: "string \<Rightarrow> js_error + nat"

record nonceTracker_iface =
  getGlobalLock :: "js_error + unit"

text \<open>
  The configuration object handed to the constructor: any property may be missing. The
  type \<open>'p\<close> is the network provider, from which the constructor builds a query interface
  when none is given.
\<close>

record 'p config =
  config_query :: "query_iface option"
  config_provider :: "'p option"
  config_nonceTracker :: "nonceTracker_iface option"
  config_getPendingTransactions :: "txMeta list option"
  config_getCompletedTransactions :: "(string \<Rightarrow> js_error + txMeta list) option"
  config_publishTransaction :: "(string \<Rightarrow> js_error + string) option"
  config_approveTransaction :: "(nat \<Rightarrow> js_error + unit) option"
  config_confirmTransaction :: "unit option"

text \<open>
  The tracker object. A collaborator that the configuration did not have is
  \<^verbatim>\<open>undefined\<close> (\<open>None\<close>) here too; calling it raises a \<^verbatim>\<open>TypeError\<close>.
\<close>

record tracker =
  droppedBlocksBufferByHash :: "string option \<rightharpoonup> nat"
  query :: query_iface
  nonceTracker :: "nonceTracker_iface option"
  getPendingTransactions :: "txMeta list option"
  getCompletedTransactions :: "(string \<Rightarrow> js_error + txMeta list) option"
  publishTransaction :: "(string \<Rightarrow> js_error + string) option"
  approveTransaction :: "(nat \<Rightarrow> js_error + unit) option"
  confirmTransaction :: "unit option"

definition DROPPED_BUFFER_COUNT :: nat where
  "DROPPED_BUFFER_COUNT = 3"

subsection \<open>The constructor\<close>

text \<open>
  \<open>EthQuery\<close> is the constructor of the query library, which is not part of the
  repository: it is a parameter, and may reject the provider.
\<close>

definition constructor ::
  "('p option \<Rightarrow> js_error + query_iface) \<Rightarrow> 'p config \<Rightarrow> js_error + tracker" where
  "constructor EthQuery config =
     (case (case config_query config of
              Some q \<Rightarrow> Inr q
            | None \<Rightarrow> EthQuery (config_provider config)) of
        Inl e \<Rightarrow> Inl e
      | Inr q \<Rightarrow>
          Inr \<lparr>droppedBlocksBufferByHash = Map.empty,
               query = q,
               nonceTracker = config_nonceTracker config,
               getPendingTransactions = config_getPendingTransactions config,
               getCompletedTransactions = config_getCompletedTransactions config,
               publishTransaction = config_publishTransaction config,
               approveTransaction = config_approveTransaction config,
               confirmTransaction = config_confirmTransaction config\<rparr>)"

subsection \<open>Checking pending transactions\<close>

text \<open>\<^verbatim>\<open>_checkIfNonceIsTaken\<close>: is there a completed item of the sender with the same nonce?\<close>

definition checkIfNonceIsTaken :: "tracker \<Rightarrow> txMeta \<Rightarrow> js_error + bool" where
  "checkIfNonceIsTaken this txMeta =
     (let address = from_addr (txParams txMeta) in
      case getCompletedTransactions this of
        None \<Rightarrow> Inl (notAFunction ''getCompletedTransactions'')
      | Some getCompleted \<Rightarrow>
          (case getCompleted address of
             Inl e \<Rightarrow> Inl e
           | Inr completed \<Rightarrow>
               Inr (list_ex (\<lambda>otherMeta.
                      if txId otherMeta = txId txMeta then False
                      else nonce (txParams otherMeta) = nonce (txParams txMeta)) completed)))"

text \<open>
  \<^verbatim>\<open>_checkIfTxWasDropped\<close>: the result, the tracker with its buffer updated, and the
  effects.
\<close>

definition checkIfTxWasDropped ::
  "tracker \<Rightarrow> txMeta \<Rightarrow> (js_error + bool) \<times> tracker \<times> effect list" where
  "checkIfTxWasDropped this txMeta =
     (let txHash = hash txMeta;
          txNonce = nonce (txParams txMeta);
          sender = from_addr (txParams txMeta);
          buffer = droppedBlocksBufferByHash this
      in case getTransactionCount (query this) sender of
           Inl e \<Rightarrow> (Inl e, this, [GetTransactionCount sender])
         | Inr networkNextNonce \<Rightarrow>
             if js_ge (parseInt16 txNonce) (Some (int networkNextNonce))
             then (Inr False, this, [GetTransactionCount sender])
             else
               (let buffer1 = (if buffer txHash = None then buffer(txHash \<mapsto> 0) else buffer)
                in (case buffer1 txHash of
                      None \<Rightarrow>
                        (Inr True, this\<lparr>droppedBlocksBufferByHash := buffer1(txHash := None)\<rparr>,
                         [GetTransactionCount sender])
                    | Some currentBlockBuffer \<Rightarrow>
                        (if currentBlockBuffer < DROPPED_BUFFER_COUNT
                         then (Inr False,
                               this\<lparr>droppedBlocksBufferByHash :=
                                      buffer1(txHash \<mapsto> currentBlockBuffer + 1)\<rparr>,
                               [GetTransactionCount sender])
                         else (Inr True,
                               this\<lparr>droppedBlocksBufferByHash := buffer1(txHash := None)\<rparr>,
                               [GetTransactionCount sender])))))"

definition noTxHashError :: js_error where
  "noTxHashError =
     \<lparr>err_name = ''NoTxHashError'',
      err_message = ''We had an error while submitting this transaction, please try again.'',
      err_value_message = None\<rparr>"

text \<open>The \<^verbatim>\<open>catch\<close> block of \<^verbatim>\<open>_checkPendingTx\<close>: the item and the effects.\<close>

definition loadingWarning :: "txMeta \<Rightarrow> js_error \<Rightarrow> txMeta \<times> effect list" where
  "loadingWarning txMeta error =
     (let txMeta' = txMeta\<lparr>warning :=
            Some \<lparr>warning_error = err_message error,
                  warning_message = ''There was a problem loading this transaction.''\<rparr>\<rparr>
      in (txMeta', [Emit (TxWarning txMeta' error)]))"

text \<open>
  The \<^verbatim>\<open>try\<close> statement of \<^verbatim>\<open>_checkPendingTx\<close>: whether the method returned
  inside it, the item, and the effects. A block that the ledger does not have is
  \<^verbatim>\<open>null\<close>, which the destructuring assignment rejects.
\<close>

definition checkReceipt :: "tracker \<Rightarrow> txMeta \<Rightarrow> string \<Rightarrow> bool \<times> txMeta \<times> effect list" where
  "checkReceipt this txMeta txHash =
     (case getTransactionReceipt (query this) txHash of
        Inl error \<Rightarrow>
          (case loadingWarning txMeta error of
             (txMeta', es) \<Rightarrow> (True, txMeta', GetTransactionReceipt txHash # es))
      | Inr None \<Rightarrow> (False, txMeta, [GetTransactionReceipt txHash])
      | Inr (Some transactionReceipt) \<Rightarrow>
          (case blockNumber transactionReceipt of
             None \<Rightarrow> (False, txMeta, [GetTransactionReceipt txHash])
           | Some bn \<Rightarrow>
               (case getBlockByHash (query this) (blockHash transactionReceipt) of
                  Inl error \<Rightarrow>
                    (case loadingWarning txMeta error of
                       (txMeta', es) \<Rightarrow>
                         (True, txMeta',
                          GetTransactionReceipt txHash #
                          GetBlockByHash (blockHash transactionReceipt) # es))
                | Inr None \<Rightarrow>
                    (case loadingWarning txMeta (cannotDestructure ''baseFeePerGas'') of
                       (txMeta', es) \<Rightarrow>
                         (True, txMeta',
                          GetTransactionReceipt txHash #
                          GetBlockByHash (blockHash transactionReceipt) # es))
                | Inr (Some blk) \<Rightarrow>
                    (True, txMeta,
                     [GetTransactionReceipt txHash,
                      GetBlockByHash (blockHash transactionReceipt),
                      Emit (TxConfirmed (txId txMeta) transactionReceipt
                             (baseFeePerGas blk))]))))"

text \<open>
  \<^verbatim>\<open>_checkPendingTx\<close>: the rejection of the returned promise if there is one, the item
  as the method leaves it, the tracker, and the effects.
\<close>

definition checkPendingTx ::
  "tracker \<Rightarrow> txMeta \<Rightarrow> js_error option \<times> txMeta \<times> tracker \<times> effect list" where
  "checkPendingTx this txMeta =
     (if status txMeta \<noteq> ''submitted'' then (None, txMeta, this, [])
      else
        case (if truthy (hash txMeta) then hash txMeta else None) of
          None \<Rightarrow> (None, txMeta, this, [Emit (TxFailed (txId txMeta) noTxHashError)])
        | Some txHash \<Rightarrow>
            (case checkIfNonceIsTaken this txMeta of
               Inl e \<Rightarrow> (Some e, txMeta, this, [])
             | Inr True \<Rightarrow> (None, txMeta, this, [Emit (TxDropped (txId txMeta))])
             | Inr False \<Rightarrow>
                 (case checkReceipt this txMeta txHash of
                    (True, txMeta', es) \<Rightarrow> (None, txMeta', this, es)
                  | (False, txMeta', es) \<Rightarrow>
                      (case checkIfTxWasDropped this txMeta' of
                         (Inl e, this', es') \<Rightarrow> (Some e, txMeta', this', es @ es')
                       | (Inr True, this', es') \<Rightarrow>
                           (None, txMeta', this',
                            es @ es' @ [Emit (TxDropped (txId txMeta))])
                       | (Inr False, this', es') \<Rightarrow> (None, txMeta', this', es @ es')))))"

text \<open>
  The evaluations that \<^verbatim>\<open>pendingTxs.map\<close> starts, one for every item: the outcome of
  each promise, the items, the tracker and the effects of each evaluation. A rejected
  promise stops neither the \<^verbatim>\<open>map\<close> nor the evaluations already started.
\<close>

fun checkPendingTxs ::
  "tracker \<Rightarrow> txMeta list \<Rightarrow>
   js_error option list \<times> txMeta list \<times> tracker \<times> effect list list" where
  "checkPendingTxs this [] = ([], [], this, [])"
| "checkPendingTxs this (txMeta # rest) =
     (case checkPendingTx this txMeta of
        (r, txMeta', this1, es1) \<Rightarrow>
          (case checkPendingTxs this1 rest of
             (rs, rest', this2, ess) \<Rightarrow> (r # rs, txMeta' # rest', this2, es1 # ess)))"

text \<open>
  \<^verbatim>\<open>Promise.all\<close> rejects with a rejection of its promises, if one is rejected: the
  one that comes first in time, for which the embedding takes the first in the list.
\<close>

fun firstRejection :: "js_error option list \<Rightarrow> js_error option" where
  "firstRejection [] = None"
| "firstRejection (None # rs) = firstRejection rs"
| "firstRejection (Some e # rs) = Some e"

text \<open>
  \<^verbatim>\<open>updatePendingTxs\<close>: the outcome for the caller (\<open>Inl\<close> is a rejection), the
  pending items it read as it leaves them, the tracker, and the effects: those of the
  method itself, in order, and those of the evaluation of each item.
\<close>

definition updatePendingTxs ::
  "tracker \<Rightarrow>
   (js_error + unit) \<times> txMeta list \<times> tracker \<times> (effect list \<times> effect list list)" where
  "updatePendingTxs this =
     (case nonceTracker this of
        None \<Rightarrow> (Inl (cannotReadProperty ''getGlobalLock''), [], this, ([], []))
      | Some nt \<Rightarrow>
          (case getGlobalLock nt of
             Inl e \<Rightarrow> (Inl e, [], this, ([], []))
           | Inr nonceGlobalLock \<Rightarrow>
               (case getPendingTransactions this of
                  None \<Rightarrow>
                    (Inr (), [], this,
                     ([LockAcquired,
                       LogError ''PendingTransactionTracker - Error updating pending transactions'',
                       LogErrorObject (notAFunction ''getPendingTransactions''),
                       LockReleased], []))
                | Some pendingTxs \<Rightarrow>
                    (case checkPendingTxs this pendingTxs of
                       (rs, txs', this', ess) \<Rightarrow>
                         (Inr (), txs', this',
                          ([LockAcquired] @
                           (case firstRejection rs of
                              None \<Rightarrow> []
                            | Some error \<Rightarrow>
                                [LogError ''PendingTransactionTracker - Error updating pending transactions'',
                                 LogErrorObject error]) @
                           [LockReleased], ess))))))"

subsection \<open>Resubmitting pending transactions\<close>

text \<open>
  \<^verbatim>\<open>_resubmitTx\<close>: the outcome of the promise (the hash on a broadcast, nothing
  otherwise, or the rejection) and the effects. The method assigns nothing to the item.
  The bound \<^verbatim>\<open>2 ** retryCount - 1\<close> is computed over the integers.
\<close>

definition txBlockDistance :: "txMeta \<Rightarrow> string \<Rightarrow> int option" where
  "txBlockDistance txMeta latestBlockNumber =
     (let firstRetry =
            (case firstRetryBlockNumber txMeta of
               None \<Rightarrow> latestBlockNumber
             | Some b \<Rightarrow> if b \<noteq> [] then b else latestBlockNumber)
      in js_minus (parseInt16 latestBlockNumber) (parseInt16 firstRetry))"

definition resubmitTx ::
  "tracker \<Rightarrow> txMeta \<Rightarrow> string \<Rightarrow> (js_error + string option) \<times> effect list" where
  "resubmitTx this txMeta latestBlockNumber =
     (let es0 = (if \<not> truthy (firstRetryBlockNumber txMeta)
                 then [Emit (TxBlockUpdate txMeta latestBlockNumber)] else []);
          distance = txBlockDistance txMeta latestBlockNumber;
          retries = (case retryCount txMeta of None \<Rightarrow> 0 | Some r \<Rightarrow> r)
      in if js_le distance (Some (2 ^ retries - 1)) then (Inr None, es0)
         else
           case rawTx txMeta of
             None \<Rightarrow>
               (case approveTransaction this of
                  None \<Rightarrow> (Inl (notAFunction ''approveTransaction''), es0)
                | Some approve \<Rightarrow>
                    (case approve (txId txMeta) of
                       Inl e \<Rightarrow> (Inl e, es0 @ [ApproveTransaction (txId txMeta)])
                     | Inr u \<Rightarrow> (Inr None, es0 @ [ApproveTransaction (txId txMeta)])))
           | Some raw \<Rightarrow>
               (case publishTransaction this of
                  None \<Rightarrow> (Inl (notAFunction ''publishTransaction''), es0)
                | Some publish \<Rightarrow>
                    (case publish raw of
                       Inl e \<Rightarrow> (Inl e, es0 @ [PublishTransaction raw])
                     | Inr txHash \<Rightarrow>
                         (Inr (Some txHash),
                          es0 @ [PublishTransaction raw, Emit (TxRetry txMeta)]))))"

text \<open>The handler that \<^verbatim>\<open>resubmitPendingTxs\<close> attaches to every resubmission.\<close>

definition errorMessage :: "js_error \<Rightarrow> string" where
  "errorMessage error =
     (case err_value_message error of
        None \<Rightarrow> toLowerCase (err_message error)
      | Some m \<Rightarrow> if toLowerCase m \<noteq> [] then toLowerCase m else toLowerCase (err_message error))"

definition isKnownTx :: "string \<Rightarrow> bool" where
  "isKnownTx msg =
     (includes_str msg ''replacement transaction underpriced'' \<or>
      includes_str msg ''known transaction'' \<or>
      includes_str msg ''gas price too low to replace'' \<or>
      includes_str msg ''transaction with the same hash was already imported'' \<or>
      includes_str msg ''gateway timeout'' \<or>
      includes_str msg ''nonce too low'')"

definition resubmitCatch :: "txMeta \<Rightarrow> js_error \<Rightarrow> txMeta \<times> effect list" where
  "resubmitCatch txMeta error =
     (let msg = errorMessage error in
      if isKnownTx msg then (txMeta, [])
      else
        let txMeta' = txMeta\<lparr>warning :=
              Some \<lparr>warning_error = msg,
                    warning_message = ''There was an error when resubmitting this transaction.''\<rparr>\<rparr>
        in (txMeta', [Emit (TxWarning txMeta' error)]))"

definition resubmitOne :: "tracker \<Rightarrow> string \<Rightarrow> txMeta \<Rightarrow> txMeta \<times> effect list" where
  "resubmitOne this blockNum txMeta =
     (case resubmitTx this txMeta blockNum of
        (Inl error, es) \<Rightarrow>
          (case resubmitCatch txMeta error of (txMeta', es') \<Rightarrow> (txMeta', es @ es'))
      | (Inr txHash, es) \<Rightarrow> (txMeta, es))"

text \<open>
  \<^verbatim>\<open>resubmitPendingTxs\<close>: the outcome for the caller, the pending items as it leaves
  them, and the effects of the resubmission of each item. It does not touch the tracker.
\<close>

definition resubmitPendingTxs ::
  "tracker \<Rightarrow> string \<Rightarrow> (js_error + unit) \<times> txMeta list \<times> effect list list" where
  "resubmitPendingTxs this blockNum =
     (case getPendingTransactions this of
        None \<Rightarrow> (Inl (notAFunction ''getPendingTransactions''), [], [])
      | Some pending \<Rightarrow>
          if length pending = 0 then (Inr (), pending, [])
          else (Inr (), map (\<lambda>txMeta. fst (resubmitOne this blockNum txMeta)) pending,
                map (\<lambda>txMeta. snd (resubmitOne this blockNum txMeta)) pending))"

subsection \<open>Reading results\<close>

text \<open>The components of what \<open>checkPendingTx\<close> and \<open>updatePendingTxs\<close> return.\<close>

definition rejectionOf :: "'a \<times> 'b \<times> 'c \<times> 'd \<Rightarrow> 'a" where
  "rejectionOf r = fst r"

definition itemOf :: "'a \<times> 'b \<times> 'c \<times> 'd \<Rightarrow> 'b" where
  "itemOf r = fst (snd r)"

definition trackerOf :: "'a \<times> 'b \<times> 'c \<times> 'd \<Rightarrow> 'c" where
  "trackerOf r = fst (snd (snd r))"

definition effectsOf :: "'a \<times> 'b \<times> 'c \<times> 'd \<Rightarrow> 'd" where
  "effectsOf r = snd (snd (snd r))"

subsection \<open>What the ledger shows for an item\<close>

text \<open>
  The ledger answers the receipt lookup without a mined receipt: it has no receipt, or one
  without a block number.
\<close>

definition noReceiptFound :: "tracker \<Rightarrow> string \<Rightarrow> bool" where
  "noReceiptFound this txHash =
     (case getTransactionReceipt (query this) txHash of
        Inl e \<Rightarrow> False
      | Inr None \<Rightarrow> True
      | Inr (Some r) \<Rightarrow> blockNumber r = None)"

text \<open>The item's nonce is a number strictly below the sender's next nonce on the network.\<close>

definition nonceBelowNetwork :: "tracker \<Rightarrow> txMeta \<Rightarrow> bool" where
  "nonceBelowNetwork this txMeta =
     (case getTransactionCount (query this) (from_addr (txParams txMeta)) of
        Inl e \<Rightarrow> False
      | Inr networkNextNonce \<Rightarrow>
          (case parseInt16 (nonce (txParams txMeta)) of
             None \<Rightarrow> False
           | Some n \<Rightarrow> n < int networkNextNonce))"

text \<open>
  One observation of a superseded item: it is submitted, it has a hash, the check looks
  its receipt up and finds none, and its nonce is below the network's next nonce.
\<close>

definition supersededObservation :: "tracker \<Rightarrow> txMeta \<Rightarrow> bool" where
  "supersededObservation this txMeta =
     (status txMeta = ''submitted'' \<and>
      (case hash txMeta of
         None \<Rightarrow> False
       | Some txHash \<Rightarrow>
           txHash \<noteq> [] \<and>
           GetTransactionReceipt txHash \<in> set (effectsOf (checkPendingTx this txMeta)) \<and>
           noReceiptFound this txHash) \<and>
      nonceBelowNetwork this txMeta)"

subsection \<open>A tracker and an item to run the methods on\<close>

definition exampleTx :: txMeta where
  "exampleTx =
     \<lparr>txId = 1, status = ''submitted'', hash = Some ''0xabc'',
      txParams = \<lparr>from_addr = ''0xa7df'', nonce = ''0x1''\<rparr>,
      rawTx = Some ''0xf86b'', firstRetryBlockNumber = None, retryCount = None,
      warning = None\<rparr>"

text \<open>A ledger without a receipt for any hash, on which every sender's next nonce is 5.\<close>

definition supersededLedger :: query_iface where
  "supersededLedger =
     \<lparr>getTransactionReceipt = (\<lambda>h. Inr None),
      getBlockByHash = (\<lambda>h. Inr None),
      getTransactionCount = (\<lambda>a. Inr 5)\<rparr>"

definition exampleTracker :: tracker where
  "exampleTracker =
     \<lparr>droppedBlocksBufferByHash = Map.empty,
      query = supersededLedger,
      nonceTracker = Some \<lparr>getGlobalLock = Inr ()\<rparr>,
      getPendingTransactions = Some [exampleTx],
      getCompletedTransactions = Some (\<lambda>a. Inr []),
      publishTransaction = Some (\<lambda>raw. Inr ''0xabc''),
      approveTransaction = Some (\<lambda>i. Inr ()),
      confirmTransaction = None\<rparr>"

definition withBuffer :: "tracker \<Rightarrow> nat \<Rightarrow> tracker" where
  "withBuffer this c = this\<lparr>droppedBlocksBufferByHash := [Some ''0xabc'' \<mapsto> c]\<rparr>"

subsection \<open>Kinds of effects and notifications\<close>


fun isBlockUpdate :: "notification \<Rightarrow> bool" where
  "isBlockUpdate (TxBlockUpdate t b) = True"
| "isBlockUpdate n = False"

definition retryingTx :: txMeta where
  "retryingTx = exampleTx\<lparr>firstRetryBlockNumber := Some ''0x10'', retryCount := Some 2\<rparr>"

text \<open>
  The tracker at the next tick when nothing but the tracker itself has changed the pending
  items since \<open>resubmitPendingTxs\<close> ran.
\<close>

definition afterResubmit :: "tracker \<Rightarrow> string \<Rightarrow> tracker" where
  "afterResubmit this blockNum =
     this\<lparr>getPendingTransactions := Some (fst (snd (resubmitPendingTxs this blockNum)))\<rparr>"

subsection \<open>Ledgers and items for the other paths\<close>

definition rpcError :: js_error where
  "rpcError =
     \<lparr>err_name = ''Error'', err_message = ''Internal JSON-RPC error.'',
      err_value_message = None\<rparr>"

definition minedReceipt :: receipt where
  "minedReceipt = \<lparr>blockNumber = Some 7, blockHash = ''0xb10c''\<rparr>"

definition minedLedger :: query_iface where
  "minedLedger =
     \<lparr>getTransactionReceipt = (\<lambda>h. Inr (Some minedReceipt)),
      getBlockByHash = (\<lambda>h. Inr (Some \<lparr>baseFeePerGas = Some ''0x7''\<rparr>)),
      getTransactionCount = (\<lambda>a. Inr 5)\<rparr>"

definition failingBlockLedger :: query_iface where
  "failingBlockLedger = minedLedger\<lparr>getBlockByHash := (\<lambda>h. Inl rpcError)\<rparr>"

definition failingLedger :: query_iface where
  "failingLedger = minedLedger\<lparr>getTransactionReceipt := (\<lambda>h. Inl rpcError)\<rparr>"

definition completedTx :: txMeta where
  "completedTx = exampleTx\<lparr>txId := 2, status := ''confirmed'', hash := Some ''0xdef''\<rparr>"

subsection \<open>Resubmission failures\<close>


fun isFailedOrDropped :: "notification \<Rightarrow> bool" where
  "isFailedOrDropped (TxFailed i e) = True"
| "isFailedOrDropped (TxDropped i) = True"
| "isFailedOrDropped n = False"





subsection \<open>A batch in which one evaluation fails\<close>




subsection \<open>Configurations\<close>

text \<open>
  Two behaviours of the query library's constructor, and a configuration that has a
  query interface and nothing else.
\<close>

definition providerError :: js_error where
  "providerError =
     \<lparr>err_name = ''Error'',
      err_message = ''the Eth object requires that the first input provider must be an object'',
      err_value_message = None\<rparr>"

definition rejectingEthQuery :: "unit option \<Rightarrow> js_error + query_iface" where
  "rejectingEthQuery provider = Inl providerError"

definition acceptingEthQuery :: "unit option \<Rightarrow> js_error + query_iface" where
  "acceptingEthQuery provider = Inr supersededLedger"

definition queryOnlyConfig :: "unit config" where
  "queryOnlyConfig =
     \<lparr>config_query = Some supersededLedger, config_provider = None,
      config_nonceTracker = None, config_getPendingTransactions = None,
      config_getCompletedTransactions = None, config_publishTransaction = None,
      config_approveTransaction = None, config_confirmTransaction = None\<rparr>"

definition bareTracker :: tracker where
  "bareTracker =
     \<lparr>droppedBlocksBufferByHash = Map.empty, query = supersededLedger,
      nonceTracker = None, getPendingTransactions = None,
      getCompletedTransactions = None, publishTransaction = None,
      approveTransaction = None, confirmTransaction = None\<rparr>"

subsection \<open>The buffer\<close>

text \<open>
  The item is one for which the check reaches the buffer: it is submitted, it has a hash,
  no completed item has taken its nonce, no mined receipt is found, and its nonce is not
  at or above the network's next nonce (which a nonce that is not a number is not either).
\<close>

definition appearsSuperseded :: "tracker \<Rightarrow> txMeta \<Rightarrow> bool" where
  "appearsSuperseded this txMeta =
     (status txMeta = ''submitted'' \<and>
      (case hash txMeta of
         None \<Rightarrow> False
       | Some txHash \<Rightarrow> txHash \<noteq> [] \<and> noReceiptFound this txHash) \<and>
      checkIfNonceIsTaken this txMeta = Inr False \<and>
      (case getTransactionCount (query this) (from_addr (txParams txMeta)) of
         Inl e \<Rightarrow> False
       | Inr networkNextNonce \<Rightarrow>
           \<not> js_ge (parseInt16 (nonce (txParams txMeta))) (Some (int networkNextNonce))))"

text \<open>Every counter in the buffer is between 1 and the threshold.\<close>

definition bufferCountsInRange :: "tracker \<Rightarrow> bool" where
  "bufferCountsInRange this =
     (\<forall>h c. droppedBlocksBufferByHash this h = Some c \<longrightarrow> 1 \<le> c \<and> c \<le> DROPPED_BUFFER_COUNT)"

text \<open>
  The tracker one tick after \<open>exampleTracker\<close>, when the ledger has come to show the
  receipt of the item.
\<close>

definition confirmedLater :: tracker where
  "confirmedLater = (trackerOf (updatePendingTxs exampleTracker))\<lparr>query := minedLedger\<rparr>"

section \<open>Properties\<close>

subsection \<open>Drop detection\<close>

lemma checkReceipt_noReceipt:
  "noReceiptFound this h \<Longrightarrow> checkReceipt this t h = (False, t, [GetTransactionReceipt h])"
  by (auto simp: noReceiptFound_def checkReceipt_def split: sum.splits option.splits)

text \<open>The check looks the receipt up exactly when no completed item has taken the nonce.\<close>

lemma receipt_looked_up_iff:
  assumes "status t = ''submitted''" and "hash t = Some h" and "h \<noteq> []"
  shows "(GetTransactionReceipt h \<in> set (effectsOf (checkPendingTx this t))) =
         (checkIfNonceIsTaken this t = Inr False)"
proof (cases "checkIfNonceIsTaken this t")
  case (Inl e)
  with assms show ?thesis
    by (simp add: checkPendingTx_def effectsOf_def truthy_def)
next
  case (Inr taken)
  show ?thesis
  proof (cases taken)
    case True
    with Inr assms show ?thesis
      by (simp add: checkPendingTx_def effectsOf_def truthy_def)
  next
    case False
    have "\<exists>es. snd (snd (checkReceipt this t h)) = GetTransactionReceipt h # es"
      by (simp add: checkReceipt_def loadingWarning_def Let_def split: sum.splits option.splits)
    then obtain es where es: "snd (snd (checkReceipt this t h)) = GetTransactionReceipt h # es"
      by blast
    obtain r t' where c: "checkReceipt this t h = (r, t', GetTransactionReceipt h # es)"
      using es by (cases "checkReceipt this t h") auto
    from False Inr assms c show ?thesis
      by (cases r; cases "checkIfTxWasDropped this t'")
         (auto simp: checkPendingTx_def effectsOf_def truthy_def split: sum.splits bool.splits)
  qed
qed

lemma supersededObservation_iff:
  "supersededObservation this t =
     (status t = ''submitted'' \<and>
      (case hash t of None \<Rightarrow> False | Some h \<Rightarrow> h \<noteq> [] \<and> noReceiptFound this h) \<and>
      checkIfNonceIsTaken this t = Inr False \<and>
      nonceBelowNetwork this t)"
  by (auto simp: supersededObservation_def receipt_looked_up_iff split: option.splits)

lemma checkPendingTx_not_superseded:
  "\<not> appearsSuperseded this t \<Longrightarrow>
   droppedBlocksBufferByHash (trackerOf (checkPendingTx this t)) = droppedBlocksBufferByHash this"
  by (simp add: appearsSuperseded_def checkPendingTx_def trackerOf_def truthy_def
      noReceiptFound_def checkReceipt_def loadingWarning_def checkIfTxWasDropped_def Let_def
      split: option.splits sum.splits bool.splits prod.splits if_splits)


lemma checkPendingTx_appearsSuperseded:
  assumes "appearsSuperseded this t"
  shows "checkPendingTx this t =
     (case droppedBlocksBufferByHash this (hash t) of
        None \<Rightarrow> (None, t,
                  this\<lparr>droppedBlocksBufferByHash := (droppedBlocksBufferByHash this)(hash t \<mapsto> 1)\<rparr>,
                  [GetTransactionReceipt (the (hash t)), GetTransactionCount (from_addr (txParams t))])
      | Some c \<Rightarrow>
          if c < DROPPED_BUFFER_COUNT
          then (None, t,
                this\<lparr>droppedBlocksBufferByHash := (droppedBlocksBufferByHash this)(hash t \<mapsto> c + 1)\<rparr>,
                [GetTransactionReceipt (the (hash t)), GetTransactionCount (from_addr (txParams t))])
          else (None, t,
                this\<lparr>droppedBlocksBufferByHash := (droppedBlocksBufferByHash this)(hash t := None)\<rparr>,
                [GetTransactionReceipt (the (hash t)), GetTransactionCount (from_addr (txParams t)),
                 Emit (TxDropped (txId t))]))"
proof -
  from assms obtain h where h: "hash t = Some h" "h \<noteq> []" "noReceiptFound this h"
    by (auto simp: appearsSuperseded_def split: option.splits)
  from assms obtain n where n: "getTransactionCount (query this) (from_addr (txParams t)) = Inr n"
    "\<not> js_ge (parseInt16 (nonce (txParams t))) (Some (int n))"
    by (auto simp: appearsSuperseded_def split: sum.splits)
  from assms have s: "status t = ''submitted''" "checkIfNonceIsTaken this t = Inr False"
    by (auto simp: appearsSuperseded_def)
  have d: "checkIfTxWasDropped this t =
     (case droppedBlocksBufferByHash this (hash t) of
        None \<Rightarrow> (Inr False,
                  this\<lparr>droppedBlocksBufferByHash := (droppedBlocksBufferByHash this)(hash t \<mapsto> 1)\<rparr>,
                  [GetTransactionCount (from_addr (txParams t))])
      | Some c \<Rightarrow>
          if c < DROPPED_BUFFER_COUNT
          then (Inr False,
                this\<lparr>droppedBlocksBufferByHash := (droppedBlocksBufferByHash this)(hash t \<mapsto> c + 1)\<rparr>,
                [GetTransactionCount (from_addr (txParams t))])
          else (Inr True,
                this\<lparr>droppedBlocksBufferByHash := (droppedBlocksBufferByHash this)(hash t := None)\<rparr>,
                [GetTransactionCount (from_addr (txParams t))]))"
    using n by (auto simp: checkIfTxWasDropped_def Let_def DROPPED_BUFFER_COUNT_def
                     split: option.splits)
  note r = checkReceipt_noReceipt[OF h(3), of t]
  show ?thesis
    unfolding checkPendingTx_def
    by (simp add: s h truthy_def r d split: option.splits)
qed

text \<open>A nonce that is a number below the next nonce is not at or above it.\<close>

lemma supersededObservation_appears:
  "supersededObservation this t \<Longrightarrow> appearsSuperseded this t"
  by (auto simp: supersededObservation_iff appearsSuperseded_def nonceBelowNetwork_def js_ge_def
        split: option.splits sum.splits)


lemma exampleTx_superseded0: "supersededObservation exampleTracker exampleTx"
  by (simp add: supersededObservation_iff exampleTx_def exampleTracker_def
        supersededLedger_def noReceiptFound_def checkIfNonceIsTaken_def nonceBelowNetwork_def
        parseInt16_def isWhiteSpace_def hexDigit_def)

lemma withBuffer_buf [simp]:
  "droppedBlocksBufferByHash (withBuffer this c) (Some ''0xabc'') = Some c"
  by (simp add: withBuffer_def)



subsection \<open>Resubmission\<close>








lemma resubmitCatch_fields:
  "fst (resubmitCatch t e)\<lparr>warning := w\<rparr> = t\<lparr>warning := w\<rparr>"
  by (simp add: resubmitCatch_def Let_def)

lemma resubmitOne_fields:
  "fst (resubmitOne this blk t)\<lparr>warning := w\<rparr> = t\<lparr>warning := w\<rparr>"
proof (cases "resubmitTx this t blk")
  case (Pair r es)
  show ?thesis
  proof (cases r)
    case (Inl e)
    obtain t' es' where c: "resubmitCatch t e = (t', es')" by (cases "resubmitCatch t e")
    with resubmitCatch_fields[where t=t and e=e and w=w] Pair Inl show ?thesis
      by (simp add: resubmitOne_def)
  next
    case (Inr h)
    with Pair show ?thesis by (simp add: resubmitOne_def)
  qed
qed

lemma resubmitOne_firstRetry:
  "firstRetryBlockNumber (fst (resubmitOne this blk t)) = firstRetryBlockNumber t"
proof -
  have "firstRetryBlockNumber (fst (resubmitOne this blk t)) =
        firstRetryBlockNumber (fst (resubmitOne this blk t)\<lparr>warning := None\<rparr>)" by simp
  also have "\<dots> = firstRetryBlockNumber (t\<lparr>warning := None\<rparr>)"
    by (simp only: resubmitOne_fields)
  finally show ?thesis by simp
qed

lemma resubmitCatch_blockUpdate:
  "filter isBlockUpdate (emitted (snd (resubmitCatch t e))) = []"
  by (simp add: resubmitCatch_def Let_def)

lemma emitted_append: "emitted (xs @ ys) = emitted xs @ emitted ys"
  by (induction xs rule: emitted.induct) simp_all

lemma resubmitTx_blockUpdate:
  "filter isBlockUpdate (emitted (snd (resubmitTx this t blk))) =
   (if truthy (firstRetryBlockNumber t) then [] else [TxBlockUpdate t blk])"
  by (simp add: resubmitTx_def Let_def emitted_append split: option.splits sum.splits)

text \<open>
  C4, as the code has it. Resubmission never assigns the item's first retry block: it
  emits a block-update notification, carrying the item and the current block number,
  on every tick on which the item has no first retry block recorded, and on no other
  tick, and on such a tick it measures the distance from the current block itself.
  Recording the block number is left to the receiver of the notification.
\<close>

theorem block_update_when_unrecorded:
  "firstRetryBlockNumber (fst (resubmitOne this blk t)) = firstRetryBlockNumber t \<and>
   filter isBlockUpdate (emitted (snd (resubmitOne this blk t))) =
     (if truthy (firstRetryBlockNumber t) then [] else [TxBlockUpdate t blk]) \<and>
   (\<not> truthy (firstRetryBlockNumber t) \<longrightarrow>
      txBlockDistance t blk = js_minus (parseInt16 blk) (parseInt16 blk))"
proof -
  have "filter isBlockUpdate (emitted (snd (resubmitOne this blk t))) =
        filter isBlockUpdate (emitted (snd (resubmitTx this t blk)))"
  proof (cases "resubmitTx this t blk")
    case (Pair r es)
    show ?thesis
    proof (cases r)
      case (Inl e)
      obtain t' es' where c: "resubmitCatch t e = (t', es')" by (cases "resubmitCatch t e")
      with resubmitCatch_blockUpdate[of t e] Pair Inl show ?thesis
        by (simp add: resubmitOne_def emitted_append)
    next
      case (Inr h)
      with Pair show ?thesis by (simp add: resubmitOne_def)
    qed
  qed
  moreover have "\<not> truthy (firstRetryBlockNumber t) \<longrightarrow>
      txBlockDistance t blk = js_minus (parseInt16 blk) (parseInt16 blk)"
    by (auto simp: truthy_def txBlockDistance_def split: option.splits)
  ultimately show ?thesis
    by (simp add: resubmitOne_firstRetry resubmitTx_blockUpdate)
qed

theorem block_update_when_unrecorded_witness:
  "\<not> truthy (firstRetryBlockNumber exampleTx) \<and>
   firstRetryBlockNumber (fst (resubmitOne exampleTracker ''0x10'' exampleTx)) = None \<and>
   filter isBlockUpdate (emitted (snd (resubmitOne exampleTracker ''0x10'' exampleTx))) =
     [TxBlockUpdate exampleTx ''0x10''] \<and>
   txBlockDistance exampleTx ''0x10'' = Some 0 \<and>
   truthy (firstRetryBlockNumber retryingTx) \<and>
   filter isBlockUpdate (emitted (snd (resubmitOne exampleTracker ''0x14'' retryingTx))) = []"
proof -
  have f: "firstRetryBlockNumber exampleTx = None"
    "firstRetryBlockNumber retryingTx = Some ''0x10''"
    by (simp_all add: exampleTx_def retryingTx_def)
  have p: "js_minus (parseInt16 ''0x10'') (parseInt16 ''0x10'') = Some 0"
    by (simp add: js_minus_def parseInt16_def isWhiteSpace_def hexDigit_def)
  show ?thesis
    using block_update_when_unrecorded[of exampleTracker "''0x10''" exampleTx]
      block_update_when_unrecorded[of exampleTracker "''0x14''" retryingTx]
    by (simp add: f p truthy_def)
qed

text \<open>
  C4, as the specification words it, fails: after a tick the item still has no first
  retry block, and the next tick emits the block-update notification again.
\<close>

theorem first_retry_block_not_recorded:
  "map firstRetryBlockNumber (fst (snd (resubmitPendingTxs exampleTracker ''0x10''))) = [None] \<and>
   map emitted (snd (snd (resubmitPendingTxs exampleTracker ''0x10''))) =
     [[TxBlockUpdate exampleTx ''0x10'']] \<and>
   map emitted (snd (snd (resubmitPendingTxs (afterResubmit exampleTracker ''0x10'') ''0x11''))) =
     [[TxBlockUpdate exampleTx ''0x11'']]"
  by (simp add: resubmitPendingTxs_def afterResubmit_def exampleTracker_def resubmitOne_def
        resubmitTx_def exampleTx_def truthy_def txBlockDistance_def js_minus_def js_le_def
        parseInt16_def isWhiteSpace_def hexDigit_def)

subsection \<open>Checking one pending item\<close>

lemma checkIfNonceIsTaken_collision:
  assumes "getCompletedTransactions this = Some getCompleted"
    and "getCompleted (from_addr (txParams t)) = Inr completed"
    and "other \<in> set completed" and "txId other \<noteq> txId t"
    and "nonce (txParams other) = nonce (txParams t)"
  shows "checkIfNonceIsTaken this t = Inr True"
  using assms by (auto simp: checkIfNonceIsTaken_def list_ex_iff)

text \<open>
  C6. For a submitted item with a hash, if a completed item of the same sender has the
  same nonce and another identity, the check emits dropped for the item and nothing else:
  it makes no ledger query.
\<close>

theorem nonce_collision_dropped:
  assumes "status t = ''submitted''" and "truthy (hash t)"
    and "getCompletedTransactions this = Some getCompleted"
    and "getCompleted (from_addr (txParams t)) = Inr completed"
    and "other \<in> set completed" and "txId other \<noteq> txId t"
    and "nonce (txParams other) = nonce (txParams t)"
  shows "effectsOf (checkPendingTx this t) = [Emit (TxDropped (txId t))] \<and>
         filter isLedgerQuery (effectsOf (checkPendingTx this t)) = [] \<and>
         rejectionOf (checkPendingTx this t) = None"
  using assms(1,2) checkIfNonceIsTaken_collision[OF assms(3-7)]
  by (auto simp: checkPendingTx_def effectsOf_def rejectionOf_def truthy_def split: option.splits)

theorem nonce_collision_dropped_witness:
  "status exampleTx = ''submitted'' \<and> truthy (hash exampleTx) \<and>
   completedTx \<in> set [completedTx] \<and> txId completedTx \<noteq> txId exampleTx \<and>
   nonce (txParams completedTx) = nonce (txParams exampleTx) \<and>
   effectsOf (checkPendingTx
     (exampleTracker\<lparr>getCompletedTransactions := Some (\<lambda>a. Inr [completedTx])\<rparr>) exampleTx) =
     [Emit (TxDropped 1)]"
proof -
  have a: "status exampleTx = ''submitted''" "truthy (hash exampleTx)"
    "txId completedTx \<noteq> txId exampleTx"
    "nonce (txParams completedTx) = nonce (txParams exampleTx)" "txId exampleTx = 1"
    by (simp_all add: exampleTx_def completedTx_def truthy_def)
  have g: "getCompletedTransactions
      (exampleTracker\<lparr>getCompletedTransactions := Some (\<lambda>a. Inr [completedTx])\<rparr>) =
      Some (\<lambda>a. Inr [completedTx])"
    by simp
  have c: "(\<lambda>a. Inr [completedTx] :: js_error + txMeta list) (from_addr (txParams exampleTx)) =
      Inr [completedTx]"
    by simp
  have m: "completedTx \<in> set [completedTx]" by simp
  show ?thesis
    using nonce_collision_dropped[OF a(1) a(2) g c m a(3) a(4)]
    by (simp add: a(1,2,4,5)) (simp add: completedTx_def exampleTx_def)
qed

text \<open>
  C5, as the code has it. For a submitted item with a hash and no nonce collision, if the
  ledger returns a receipt carrying a block number and the fetch of the containing block
  gives a block, the check emits exactly one notification, confirmed, carrying that
  receipt and the base fee of that block; it changes neither the item nor the buffer.
\<close>

theorem mined_receipt_confirmed:
  assumes "status t = ''submitted''" and "hash t = Some h" and "h \<noteq> []"
    and "checkIfNonceIsTaken this t = Inr False"
    and "getTransactionReceipt (query this) h = Inr (Some rc)"
    and "blockNumber rc = Some bn"
    and "getBlockByHash (query this) (blockHash rc) = Inr (Some blk)"
  shows "emitted (effectsOf (checkPendingTx this t)) =
           [TxConfirmed (txId t) rc (baseFeePerGas blk)] \<and>
         rejectionOf (checkPendingTx this t) = None \<and>
         itemOf (checkPendingTx this t) = t \<and>
         trackerOf (checkPendingTx this t) = this"
  using assms
  by (simp add: checkPendingTx_def checkReceipt_def effectsOf_def rejectionOf_def itemOf_def
        trackerOf_def truthy_def)

lemma exampleTx_no_collision:
  "checkIfNonceIsTaken (exampleTracker\<lparr>query := q\<rparr>) exampleTx = Inr False"
  by (simp add: checkIfNonceIsTaken_def exampleTracker_def)

theorem mined_receipt_confirmed_witness:
  "status exampleTx = ''submitted'' \<and> hash exampleTx = Some ''0xabc'' \<and>
   checkIfNonceIsTaken (exampleTracker\<lparr>query := minedLedger\<rparr>) exampleTx = Inr False \<and>
   getTransactionReceipt minedLedger ''0xabc'' = Inr (Some minedReceipt) \<and>
   blockNumber minedReceipt = Some 7 \<and>
   getBlockByHash minedLedger (blockHash minedReceipt) = Inr (Some \<lparr>baseFeePerGas = Some ''0x7''\<rparr>) \<and>
   emitted (effectsOf (checkPendingTx (exampleTracker\<lparr>query := minedLedger\<rparr>) exampleTx)) =
     [TxConfirmed 1 minedReceipt (Some ''0x7'')]"
proof -
  have a: "status exampleTx = ''submitted''" "hash exampleTx = Some ''0xabc''"
    "''0xabc'' \<noteq> []" "txId exampleTx = 1"
    by (simp_all add: exampleTx_def)
  have r: "getTransactionReceipt (query (exampleTracker\<lparr>query := minedLedger\<rparr>)) ''0xabc'' =
      Inr (Some minedReceipt)"
    by (simp add: minedLedger_def)
  have n: "blockNumber minedReceipt = Some 7" by (simp add: minedReceipt_def)
  have b: "getBlockByHash (query (exampleTracker\<lparr>query := minedLedger\<rparr>)) (blockHash minedReceipt) =
      Inr (Some \<lparr>baseFeePerGas = Some ''0x7''\<rparr>)"
    by (simp add: minedLedger_def)
  show ?thesis
    using mined_receipt_confirmed[OF a(1) a(2) a(3) exampleTx_no_collision r n b] r b
    by (simp add: a n exampleTx_no_collision)
qed

text \<open>
  C5, as the specification words it, fails: the receipt carries a block number, but the
  fetch of the containing block fails, and the check emits a warning and no confirmed
  notification.
\<close>

theorem block_fetch_failure_not_confirmed:
  "status exampleTx = ''submitted'' \<and> hash exampleTx = Some ''0xabc'' \<and>
   checkIfNonceIsTaken (exampleTracker\<lparr>query := failingBlockLedger\<rparr>) exampleTx = Inr False \<and>
   getTransactionReceipt failingBlockLedger ''0xabc'' = Inr (Some minedReceipt) \<and>
   blockNumber minedReceipt = Some 7 \<and>
   emitted (effectsOf (checkPendingTx (exampleTracker\<lparr>query := failingBlockLedger\<rparr>) exampleTx)) =
     [TxWarning
        (exampleTx\<lparr>warning := Some \<lparr>warning_error = ''Internal JSON-RPC error.'',
           warning_message = ''There was a problem loading this transaction.''\<rparr>\<rparr>)
        rpcError]"
  by (simp add: exampleTx_no_collision)
     (simp add: exampleTx_def failingBlockLedger_def minedLedger_def minedReceipt_def
        checkPendingTx_def checkReceipt_def loadingWarning_def effectsOf_def truthy_def
        checkIfNonceIsTaken_def exampleTracker_def rpcError_def Let_def)

text \<open>
  C7. For a submitted item with a hash and no nonce collision, if the ledger query fails
  with an error (the receipt lookup, or the fetch of the block of a mined receipt), the
  check records the error's message as the item's warning and emits exactly one
  notification, a warning for the item; it emits neither dropped nor failed, rejects
  nothing and leaves the buffer alone.
\<close>

theorem query_failure_warns:
  assumes "status t = ''submitted''" and "hash t = Some h" and "h \<noteq> []"
    and "checkIfNonceIsTaken this t = Inr False"
    and "getTransactionReceipt (query this) h = Inl e \<or>
         (\<exists>rc bn. getTransactionReceipt (query this) h = Inr (Some rc) \<and>
                   blockNumber rc = Some bn \<and>
                   getBlockByHash (query this) (blockHash rc) = Inl e)"
  shows "itemOf (checkPendingTx this t) =
           t\<lparr>warning := Some \<lparr>warning_error = err_message e,
                warning_message = ''There was a problem loading this transaction.''\<rparr>\<rparr> \<and>
         emitted (effectsOf (checkPendingTx this t)) =
           [TxWarning (itemOf (checkPendingTx this t)) e] \<and>
         rejectionOf (checkPendingTx this t) = None \<and>
         trackerOf (checkPendingTx this t) = this"
  using assms
  by (auto simp: checkPendingTx_def checkReceipt_def loadingWarning_def effectsOf_def
        rejectionOf_def itemOf_def trackerOf_def truthy_def Let_def)

theorem query_failure_warns_witness:
  "status exampleTx = ''submitted'' \<and> hash exampleTx = Some ''0xabc'' \<and>
   checkIfNonceIsTaken (exampleTracker\<lparr>query := failingLedger\<rparr>) exampleTx = Inr False \<and>
   getTransactionReceipt failingLedger ''0xabc'' = Inl rpcError \<and>
   itemOf (checkPendingTx (exampleTracker\<lparr>query := failingLedger\<rparr>) exampleTx) =
     exampleTx\<lparr>warning := Some \<lparr>warning_error = ''Internal JSON-RPC error.'',
        warning_message = ''There was a problem loading this transaction.''\<rparr>\<rparr> \<and>
   emitted (effectsOf (checkPendingTx (exampleTracker\<lparr>query := failingLedger\<rparr>) exampleTx)) =
     [TxWarning
        (exampleTx\<lparr>warning := Some \<lparr>warning_error = ''Internal JSON-RPC error.'',
           warning_message = ''There was a problem loading this transaction.''\<rparr>\<rparr>)
        rpcError]"
proof -
  have a: "status exampleTx = ''submitted''" "hash exampleTx = Some ''0xabc''"
    "''0xabc'' \<noteq> []"
    by (simp_all add: exampleTx_def)
  have r: "getTransactionReceipt (query (exampleTracker\<lparr>query := failingLedger\<rparr>)) ''0xabc'' =
      Inl rpcError"
    by (simp add: failingLedger_def)
  have m: "err_message rpcError = ''Internal JSON-RPC error.''" by (simp add: rpcError_def)
  show ?thesis
    using query_failure_warns[OF a(1) a(2) a(3) exampleTx_no_collision disjI1[OF r]] r
    by (simp add: a m exampleTx_no_collision)
qed

subsection \<open>Failed resubmissions\<close>






lemma resubmitTx_not_terminal:
  "filter isFailedOrDropped (emitted (snd (resubmitTx this t blk))) = []"
  by (simp add: resubmitTx_def Let_def split: option.splits sum.splits)

lemma resubmitCatch_not_terminal:
  "filter isFailedOrDropped (emitted (snd (resubmitCatch t e))) = []"
  by (simp add: resubmitCatch_def Let_def)

lemma resubmitOne_not_terminal:
  "filter isFailedOrDropped (emitted (snd (resubmitOne this blk t))) = []"
proof (cases "resubmitTx this t blk")
  case (Pair r es)
  with resubmitTx_not_terminal[of this t blk]
  have es: "filter isFailedOrDropped (emitted es) = []" by simp
  show ?thesis
  proof (cases r)
    case (Inl e)
    obtain t' es' where c: "resubmitCatch t e = (t', es')" by (cases "resubmitCatch t e")
    with resubmitCatch_not_terminal[of t e] have "filter isFailedOrDropped (emitted es') = []"
      by simp
    with Pair Inl c es show ?thesis by (simp add: resubmitOne_def emitted_append)
  next
    case (Inr h)
    with Pair es show ?thesis by (simp add: resubmitOne_def)
  qed
qed











subsection \<open>The batch\<close>

lemma checkPendingTxs_Cons:
  "checkPendingTxs this (t # ts) =
     (rejectionOf (checkPendingTx this t) #
        rejectionOf (checkPendingTxs (trackerOf (checkPendingTx this t)) ts),
      itemOf (checkPendingTx this t) #
        itemOf (checkPendingTxs (trackerOf (checkPendingTx this t)) ts),
      trackerOf (checkPendingTxs (trackerOf (checkPendingTx this t)) ts),
      effectsOf (checkPendingTx this t) #
        effectsOf (checkPendingTxs (trackerOf (checkPendingTx this t)) ts))"
  by (simp add: rejectionOf_def itemOf_def trackerOf_def effectsOf_def split: prod.splits)



lemma updatePendingTxs_acquired:
  assumes "nonceTracker this = Some nt" and "getGlobalLock nt = Inr ()"
    and "getPendingTransactions this = Some pending"
  shows "updatePendingTxs this =
     (Inr (), itemOf (checkPendingTxs this pending), trackerOf (checkPendingTxs this pending),
      ([LockAcquired] @
       (case firstRejection (rejectionOf (checkPendingTxs this pending)) of
          None \<Rightarrow> []
        | Some error \<Rightarrow>
            [LogError ''PendingTransactionTracker - Error updating pending transactions'',
             LogErrorObject error]) @
       [LockReleased],
       effectsOf (checkPendingTxs this pending)))"
  using assms
  by (simp add: updatePendingTxs_def rejectionOf_def itemOf_def trackerOf_def effectsOf_def
        split: prod.splits)






subsection \<open>Construction\<close>

text \<open>
  C9, as the code has it. The constructor checks nothing. It raises an error only when
  the configuration has no query interface and the query library's constructor rejects
  the provider, and the error is that constructor's. Otherwise it returns a tracker with
  an empty buffer that holds the nonce tracker, the pending-set and completed-set
  providers and the approve and broadcast functions exactly as the configuration has
  them, missing ones included.
\<close>

theorem constructor_errors:
  "(\<forall>e. (constructor EthQuery config = Inl e) =
         (config_query config = None \<and> EthQuery (config_provider config) = Inl e)) \<and>
   (\<forall>this. constructor EthQuery config = Inr this \<longrightarrow>
      droppedBlocksBufferByHash this = Map.empty \<and>
      (case config_query config of
         Some q \<Rightarrow> query this = q
       | None \<Rightarrow> EthQuery (config_provider config) = Inr (query this)) \<and>
      nonceTracker this = config_nonceTracker config \<and>
      getPendingTransactions this = config_getPendingTransactions config \<and>
      getCompletedTransactions this = config_getCompletedTransactions config \<and>
      publishTransaction this = config_publishTransaction config \<and>
      approveTransaction this = config_approveTransaction config)"
proof (cases "config_query config")
  case (Some q)
  then show ?thesis by (auto simp: constructor_def)
next
  case None
  show ?thesis
  proof (cases "EthQuery (config_provider config)")
    case (Inl e)
    with None show ?thesis by (simp add: constructor_def)
  next
    case (Inr q)
    with None show ?thesis by (auto simp: constructor_def)
  qed
qed

theorem constructor_errors_witness:
  "constructor rejectingEthQuery (queryOnlyConfig\<lparr>config_query := None\<rparr>) =
     Inl providerError \<and>
   config_query (queryOnlyConfig\<lparr>config_query := None\<rparr>) = None \<and>
   constructor acceptingEthQuery queryOnlyConfig = Inr bareTracker \<and>
   nonceTracker bareTracker = config_nonceTracker queryOnlyConfig"
proof -
  have c: "constructor acceptingEthQuery queryOnlyConfig = Inr bareTracker"
    by (simp add: constructor_def queryOnlyConfig_def bareTracker_def)
  have q: "config_query (queryOnlyConfig\<lparr>config_query := None\<rparr>) = None"
    "config_provider (queryOnlyConfig\<lparr>config_query := None\<rparr>) = None"
    by (simp_all add: queryOnlyConfig_def)
  have r: "rejectingEthQuery None = Inl providerError"
    by (simp add: rejectingEthQuery_def)
  from constructor_errors[of rejectingEthQuery "queryOnlyConfig\<lparr>config_query := None\<rparr>"] q r
  have "constructor rejectingEthQuery (queryOnlyConfig\<lparr>config_query := None\<rparr>) =
     Inl providerError"
    by simp
  moreover from constructor_errors[of acceptingEthQuery queryOnlyConfig] c
  have "nonceTracker bareTracker = config_nonceTracker queryOnlyConfig" by simp
  ultimately show ?thesis using c q by simp
qed

text \<open>
  C9, as the specification words it, fails: a configuration without nonce tracker,
  pending-set provider, completed-set provider, approve function and broadcast function
  constructs a tracker, and so does one that lacks the query interface too when the
  query library accepts the provider.
\<close>

theorem constructor_accepts_missing_collaborators:
  "config_nonceTracker queryOnlyConfig = None \<and>
   config_getPendingTransactions queryOnlyConfig = None \<and>
   config_getCompletedTransactions queryOnlyConfig = None \<and>
   config_approveTransaction queryOnlyConfig = None \<and>
   config_publishTransaction queryOnlyConfig = None \<and>
   constructor rejectingEthQuery queryOnlyConfig = Inr bareTracker \<and>
   config_query (queryOnlyConfig\<lparr>config_query := None\<rparr>) = None \<and>
   constructor acceptingEthQuery (queryOnlyConfig\<lparr>config_query := None\<rparr>) = Inr bareTracker"
  by (simp add: constructor_def queryOnlyConfig_def bareTracker_def rejectingEthQuery_def
        acceptingEthQuery_def)

text \<open>A missing collaborator shows when a method first uses it.\<close>

lemma missing_collaborator_fails_at_use:
  "nonceTracker this = None \<Longrightarrow>
     rejectionOf (updatePendingTxs this) = Inl (cannotReadProperty ''getGlobalLock'')"
  "getPendingTransactions this = None \<Longrightarrow>
     fst (resubmitPendingTxs this blk) = Inl (notAFunction ''getPendingTransactions'')"
  "getCompletedTransactions this = None \<Longrightarrow>
     checkIfNonceIsTaken this t = Inl (notAFunction ''getCompletedTransactions'')"
  by (simp_all add: updatePendingTxs_def resubmitPendingTxs_def checkIfNonceIsTaken_def
        rejectionOf_def)

subsection \<open>The dropped-block buffer\<close>

lemma checkPendingTx_keeps_range:
  assumes "bufferCountsInRange this"
  shows "bufferCountsInRange (trackerOf (checkPendingTx this t))"
proof (cases "appearsSuperseded this t")
  case False
  with assms checkPendingTx_not_superseded[OF False] show ?thesis
    by (simp add: bufferCountsInRange_def)
next
  case True
  show ?thesis
  proof (cases "droppedBlocksBufferByHash this (hash t)")
    case None
    with assms show ?thesis
      by (simp add: checkPendingTx_appearsSuperseded[OF True] trackerOf_def
            bufferCountsInRange_def DROPPED_BUFFER_COUNT_def)
  next
    case (Some c)
    with assms show ?thesis
      by (auto simp: checkPendingTx_appearsSuperseded[OF True] trackerOf_def
            bufferCountsInRange_def DROPPED_BUFFER_COUNT_def)
  qed
qed

lemma checkPendingTxs_keeps_range:
  "bufferCountsInRange this \<Longrightarrow> bufferCountsInRange (trackerOf (checkPendingTxs this pending))"
proof (induction pending arbitrary: this)
  case Nil
  then show ?case by (simp add: trackerOf_def)
next
  case (Cons t ts)
  from Cons.IH[OF checkPendingTx_keeps_range[OF Cons.prems, of t]] show ?case
    unfolding checkPendingTxs_Cons[of this t ts] by (simp add: trackerOf_def)
qed

lemma updatePendingTxs_tracker:
  "trackerOf (updatePendingTxs this) =
     (case nonceTracker this of
        None \<Rightarrow> this
      | Some nt \<Rightarrow>
          (case getGlobalLock nt of
             Inl e \<Rightarrow> this
           | Inr l \<Rightarrow>
               (case getPendingTransactions this of
                  None \<Rightarrow> this
                | Some pending \<Rightarrow> trackerOf (checkPendingTxs this pending))))"
  by (simp add: updatePendingTxs_def trackerOf_def split: option.splits sum.splits prod.splits)

lemma updatePendingTxs_keeps_range:
  assumes "bufferCountsInRange this"
  shows "bufferCountsInRange (trackerOf (updatePendingTxs this))"
  unfolding updatePendingTxs_tracker
  using assms checkPendingTxs_keeps_range[OF assms]
  by (simp split: option.splits sum.splits)

text \<open>
  C10, as the code has it. The constructor starts with an empty buffer, and every
  operation keeps every counter between 1 and the threshold of 3 (resubmission has no
  access to the buffer). A check of an item changes the buffer at no key but the item's
  hash, and only when the item appears superseded: it is submitted, no completed item has
  its nonce, no mined receipt is found and its nonce is not at or above the network's
  next nonce. An entry is removed only by the check that emits the debounced dropped
  notification for its hash, and that check always removes it. Nothing else removes an
  entry: not a confirmation, not a failure, not a drop through a nonce collision, and
  not a nonce that no longer appears superseded.
\<close>

theorem buffer_entries:
  "(\<forall>EthQuery config this. constructor EthQuery config = Inr this \<longrightarrow> bufferCountsInRange this) \<and>
   (bufferCountsInRange this \<longrightarrow> bufferCountsInRange (trackerOf (updatePendingTxs this))) \<and>
   (bufferCountsInRange this \<longrightarrow> bufferCountsInRange (trackerOf (checkPendingTx this t))) \<and>
   (\<forall>k. droppedBlocksBufferByHash (trackerOf (checkPendingTx this t)) k \<noteq>
          droppedBlocksBufferByHash this k \<longrightarrow>
        k = hash t \<and> appearsSuperseded this t) \<and>
   (\<forall>k. droppedBlocksBufferByHash this k \<noteq> None \<and>
        droppedBlocksBufferByHash (trackerOf (checkPendingTx this t)) k = None \<longrightarrow>
        k = hash t \<and> TxDropped (txId t) \<in> set (emitted (effectsOf (checkPendingTx this t)))) \<and>
   (appearsSuperseded this t \<and>
      TxDropped (txId t) \<in> set (emitted (effectsOf (checkPendingTx this t))) \<longrightarrow>
        droppedBlocksBufferByHash (trackerOf (checkPendingTx this t)) (hash t) = None)"
proof -
  have 1: "\<forall>EthQuery config this.
      constructor EthQuery (config :: 'a config) = Inr this \<longrightarrow> bufferCountsInRange this"
    by (auto simp: constructor_def bufferCountsInRange_def split: option.splits sum.splits)
  have 4: "\<forall>k. droppedBlocksBufferByHash (trackerOf (checkPendingTx this t)) k \<noteq>
          droppedBlocksBufferByHash this k \<longrightarrow>
        k = hash t \<and> appearsSuperseded this t"
  proof (cases "appearsSuperseded this t")
    case False
    with checkPendingTx_not_superseded[OF False] show ?thesis by simp
  next
    case True
    then show ?thesis
      by (auto simp: checkPendingTx_appearsSuperseded[OF True] trackerOf_def
            split: option.splits if_splits)
  qed
  have 5: "\<forall>k. droppedBlocksBufferByHash this k \<noteq> None \<and>
        droppedBlocksBufferByHash (trackerOf (checkPendingTx this t)) k = None \<longrightarrow>
        k = hash t \<and> TxDropped (txId t) \<in> set (emitted (effectsOf (checkPendingTx this t)))"
  proof (cases "appearsSuperseded this t")
    case False
    with checkPendingTx_not_superseded[OF False] show ?thesis by auto
  next
    case True
    then show ?thesis
      by (auto simp: checkPendingTx_appearsSuperseded[OF True] trackerOf_def effectsOf_def
            split: option.splits if_splits)
  qed
  have 6: "appearsSuperseded this t \<and>
      TxDropped (txId t) \<in> set (emitted (effectsOf (checkPendingTx this t))) \<longrightarrow>
        droppedBlocksBufferByHash (trackerOf (checkPendingTx this t)) (hash t) = None"
    by (auto simp: checkPendingTx_appearsSuperseded trackerOf_def effectsOf_def
          split: option.splits if_splits)
  from 1 4 5 6 updatePendingTxs_keeps_range checkPendingTx_keeps_range show ?thesis
    by blast
qed


lemma withBuffer_in_range: "bufferCountsInRange (withBuffer exampleTracker 3)"
  by (auto simp: bufferCountsInRange_def withBuffer_def DROPPED_BUFFER_COUNT_def
        split: if_splits)

lemma exampleTx_appearsSuperseded: "appearsSuperseded (withBuffer exampleTracker c) exampleTx"
  by (simp add: appearsSuperseded_def exampleTx_def exampleTracker_def withBuffer_def
        supersededLedger_def noReceiptFound_def checkIfNonceIsTaken_def js_ge_def
        parseInt16_def isWhiteSpace_def hexDigit_def)

lemma fourth_check:
  "checkPendingTx (withBuffer exampleTracker 3) exampleTx =
     (None, exampleTx,
      withBuffer exampleTracker 3
        \<lparr>droppedBlocksBufferByHash :=
           (droppedBlocksBufferByHash (withBuffer exampleTracker 3))(Some ''0xabc'' := None)\<rparr>,
      [GetTransactionReceipt ''0xabc'', GetTransactionCount ''0xa7df'', Emit (TxDropped 1)])"
  by (simp add: checkPendingTx_appearsSuperseded[OF exampleTx_appearsSuperseded])
     (simp add: exampleTx_def DROPPED_BUFFER_COUNT_def)

theorem buffer_entries_witness:
  "constructor acceptingEthQuery queryOnlyConfig = Inr bareTracker \<and>
   bufferCountsInRange bareTracker \<and>
   bufferCountsInRange (withBuffer exampleTracker 3) \<and>
   bufferCountsInRange (trackerOf (checkPendingTx (withBuffer exampleTracker 3) exampleTx)) \<and>
   droppedBlocksBufferByHash (withBuffer exampleTracker 3) (Some ''0xabc'') = Some 3 \<and>
   droppedBlocksBufferByHash
     (trackerOf (checkPendingTx (withBuffer exampleTracker 3) exampleTx)) (Some ''0xabc'') = None \<and>
   appearsSuperseded (withBuffer exampleTracker 3) exampleTx \<and>
   TxDropped 1 \<in> set (emitted (effectsOf (checkPendingTx (withBuffer exampleTracker 3) exampleTx)))"
proof -
  have c: "constructor acceptingEthQuery queryOnlyConfig = Inr bareTracker"
    by (simp add: constructor_def queryOnlyConfig_def bareTracker_def)
  have b: "droppedBlocksBufferByHash (withBuffer exampleTracker 3) (Some ''0xabc'') = Some 3"
    by simp
  have a: "droppedBlocksBufferByHash
     (trackerOf (checkPendingTx (withBuffer exampleTracker 3) exampleTx)) (Some ''0xabc'') = None"
    by (simp add: fourth_check trackerOf_def)
  have h: "hash exampleTx = Some ''0xabc''" and i: "txId exampleTx = 1"
    by (simp_all add: exampleTx_def)
  note w = buffer_entries[of "withBuffer exampleTracker 3" exampleTx]
  from w c have 1: "bufferCountsInRange bareTracker" by blast
  from w withBuffer_in_range
  have 2: "bufferCountsInRange (trackerOf (checkPendingTx (withBuffer exampleTracker 3) exampleTx))"
    by blast
  from w a b have "Some ''0xabc'' = hash exampleTx \<and>
      TxDropped (txId exampleTx) \<in>
        set (emitted (effectsOf (checkPendingTx (withBuffer exampleTracker 3) exampleTx)))"
    by (metis option.distinct(1))
  then have 3: "TxDropped 1 \<in>
        set (emitted (effectsOf (checkPendingTx (withBuffer exampleTracker 3) exampleTx)))"
    by (simp add: i)
  from w a b have 4: "appearsSuperseded (withBuffer exampleTracker 3) exampleTx"
    by (metis option.distinct(1))
  from c 1 2 3 4 a b withBuffer_in_range show ?thesis by simp
qed

text \<open>
  C10, as the specification words it, fails: the item is seen superseded once, which
  creates its entry; at the next tick the ledger has its receipt, the confirmed
  notification is emitted, and the entry is still in the buffer.
\<close>

theorem buffer_entry_survives_confirmation:
  "droppedBlocksBufferByHash (trackerOf (updatePendingTxs exampleTracker)) (Some ''0xabc'') =
     Some 1 \<and>
   map emitted (snd (effectsOf (updatePendingTxs confirmedLater))) =
     [[TxConfirmed 1 minedReceipt (Some ''0x7'')]] \<and>
   droppedBlocksBufferByHash (trackerOf (updatePendingTxs confirmedLater)) (Some ''0xabc'') =
     Some 1"
proof -
  have 1: "updatePendingTxs exampleTracker =
     (Inr (), [exampleTx], withBuffer exampleTracker 1,
      ([LockAcquired, LockReleased],
       [[GetTransactionReceipt ''0xabc'', GetTransactionCount ''0xa7df'']]))"
    by (simp add: updatePendingTxs_def exampleTracker_def withBuffer_def checkPendingTx_def
          checkReceipt_def checkIfTxWasDropped_def checkIfNonceIsTaken_def exampleTx_def
          supersededLedger_def truthy_def js_ge_def parseInt16_def isWhiteSpace_def
          hexDigit_def DROPPED_BUFFER_COUNT_def Let_def)
  have 2: "confirmedLater = withBuffer exampleTracker 1\<lparr>query := minedLedger\<rparr>"
    by (simp add: confirmedLater_def 1 trackerOf_def)
  have 3: "updatePendingTxs confirmedLater =
     (Inr (), [exampleTx], confirmedLater,
      ([LockAcquired, LockReleased],
       [[GetTransactionReceipt ''0xabc'', GetBlockByHash ''0xb10c'',
         Emit (TxConfirmed 1 minedReceipt (Some ''0x7''))]]))"
    unfolding 2
    by (simp add: updatePendingTxs_def exampleTracker_def withBuffer_def checkPendingTx_def
          checkReceipt_def checkIfNonceIsTaken_def exampleTx_def minedLedger_def
          minedReceipt_def truthy_def Let_def)
  show ?thesis
    by (simp add: 1 3 trackerOf_def effectsOf_def) (simp add: 2 withBuffer_def)
qed

subsection \<open>What a check leaves alone\<close>

text \<open>
  A check changes nothing of the tracker but the buffer, so every item of a batch is
  checked against the same collaborators.
\<close>

lemma checkIfTxWasDropped_frame:
  "fst (snd (checkIfTxWasDropped this t)) =
   this\<lparr>droppedBlocksBufferByHash :=
          droppedBlocksBufferByHash (fst (snd (checkIfTxWasDropped this t)))\<rparr>"
  by (simp add: checkIfTxWasDropped_def Let_def split: sum.splits option.splits)

lemma checkPendingTx_frame:
  "trackerOf (checkPendingTx this t) =
   this\<lparr>droppedBlocksBufferByHash := droppedBlocksBufferByHash (trackerOf (checkPendingTx this t))\<rparr>"
proof (cases "appearsSuperseded this t")
  case True
  then show ?thesis
    by (simp add: checkPendingTx_appearsSuperseded[OF True] trackerOf_def split: option.splits)
next
  case False
  have "trackerOf (checkPendingTx this t) = this \<or>
        trackerOf (checkPendingTx this t) = fst (snd (checkIfTxWasDropped this t))"
    by (auto simp: checkPendingTx_def trackerOf_def checkReceipt_def loadingWarning_def Let_def
          split: option.splits sum.splits bool.splits prod.splits)
  then show ?thesis
    using checkIfTxWasDropped_frame[of this t] by auto
qed

lemma checkPendingTxs_frame:
  "trackerOf (checkPendingTxs this pending) =
   this\<lparr>droppedBlocksBufferByHash :=
          droppedBlocksBufferByHash (trackerOf (checkPendingTxs this pending))\<rparr>"
proof (induction pending arbitrary: this)
  case Nil
  show ?case by (simp add: trackerOf_def)
next
  case (Cons t ts)
  have s: "trackerOf (checkPendingTxs this (t # ts)) =
           trackerOf (checkPendingTxs (trackerOf (checkPendingTx this t)) ts)"
    unfolding checkPendingTxs_Cons[of this t ts] by (simp add: trackerOf_def)
  show ?case
    unfolding s
    by (subst Cons.IH, subst checkPendingTx_frame) simp
qed

text \<open>A failure to acquire the lock is the one error that reaches the caller.\<close>

lemma lock_failure_propagates:
  "nonceTracker this = Some nt \<Longrightarrow> getGlobalLock nt = Inl e \<Longrightarrow>
   updatePendingTxs this = (Inl e, [], this, ([], []))"
  by (simp add: updatePendingTxs_def)

subsection \<open>Four ticks of the periodic check\<close>

text \<open>
  The whole method on the example: with the item superseded and nothing else changing,
  three ticks emit nothing, the fourth emits dropped, and the buffer is empty again.
\<close>

lemma exampleTracker_tick:
  "updatePendingTxs exampleTracker =
     (Inr (), [exampleTx], withBuffer exampleTracker 1,
      ([LockAcquired, LockReleased],
       [[GetTransactionReceipt ''0xabc'', GetTransactionCount ''0xa7df'']]))"
proof -
  have n: "nonceTracker exampleTracker = Some \<lparr>getGlobalLock = Inr ()\<rparr>"
    and p: "getPendingTransactions exampleTracker = Some [exampleTx]"
    and b: "droppedBlocksBufferByHash exampleTracker (hash exampleTx) = None"
    by (simp_all add: exampleTracker_def)
  have c: "checkPendingTx exampleTracker exampleTx =
     (None, exampleTx, withBuffer exampleTracker 1,
      [GetTransactionReceipt ''0xabc'', GetTransactionCount ''0xa7df''])"
    by (simp add: checkPendingTx_appearsSuperseded[OF
          supersededObservation_appears[OF exampleTx_superseded0]] b)
       (simp add: exampleTx_def withBuffer_def exampleTracker_def)
  show ?thesis
    by (simp add: updatePendingTxs_acquired[OF n _ p] c rejectionOf_def itemOf_def
          trackerOf_def effectsOf_def)
qed

lemma withBuffer_tick:
  "updatePendingTxs (withBuffer exampleTracker c) =
     (if c < 3
      then (Inr (), [exampleTx], withBuffer exampleTracker (c + 1),
            ([LockAcquired, LockReleased],
             [[GetTransactionReceipt ''0xabc'', GetTransactionCount ''0xa7df'']]))
      else (Inr (), [exampleTx], exampleTracker,
            ([LockAcquired, LockReleased],
             [[GetTransactionReceipt ''0xabc'', GetTransactionCount ''0xa7df'',
               Emit (TxDropped 1)]])))"
proof -
  have n: "nonceTracker (withBuffer exampleTracker c) = Some \<lparr>getGlobalLock = Inr ()\<rparr>"
    and p: "getPendingTransactions (withBuffer exampleTracker c) = Some [exampleTx]"
    by (simp_all add: exampleTracker_def withBuffer_def)
  have h: "hash exampleTx = Some ''0xabc''" by (simp add: exampleTx_def)
  have e: "withBuffer exampleTracker c
             \<lparr>droppedBlocksBufferByHash :=
                (droppedBlocksBufferByHash (withBuffer exampleTracker c))(Some ''0xabc'' := None)\<rparr> =
           exampleTracker"
    "withBuffer exampleTracker c
             \<lparr>droppedBlocksBufferByHash :=
                (droppedBlocksBufferByHash (withBuffer exampleTracker c))(Some ''0xabc'' \<mapsto> Suc c)\<rparr> =
           withBuffer exampleTracker (Suc c)"
    by (simp_all add: withBuffer_def exampleTracker_def fun_eq_iff)
  have c: "checkPendingTx (withBuffer exampleTracker c) exampleTx =
     (if c < 3
      then (None, exampleTx, withBuffer exampleTracker (c + 1),
            [GetTransactionReceipt ''0xabc'', GetTransactionCount ''0xa7df''])
      else (None, exampleTx, exampleTracker,
            [GetTransactionReceipt ''0xabc'', GetTransactionCount ''0xa7df'',
             Emit (TxDropped 1)]))"
    by (simp add: checkPendingTx_appearsSuperseded[OF exampleTx_appearsSuperseded] h e
          DROPPED_BUFFER_COUNT_def)
       (simp add: exampleTx_def)
  show ?thesis
    by (simp add: updatePendingTxs_acquired[OF n _ p] c rejectionOf_def itemOf_def
          trackerOf_def effectsOf_def)
qed

lemma four_ticks:
  "map (\<lambda>this. map emitted (snd (effectsOf (updatePendingTxs this))))
     [exampleTracker,
      trackerOf (updatePendingTxs exampleTracker),
      trackerOf (updatePendingTxs (trackerOf (updatePendingTxs exampleTracker))),
      trackerOf (updatePendingTxs (trackerOf (updatePendingTxs
        (trackerOf (updatePendingTxs exampleTracker)))))] =
   [[[]], [[]], [[]], [[TxDropped 1]]] \<and>
   trackerOf (updatePendingTxs (trackerOf (updatePendingTxs (trackerOf (updatePendingTxs
     (trackerOf (updatePendingTxs exampleTracker))))))) = exampleTracker"
  by (simp add: exampleTracker_tick withBuffer_tick trackerOf_def effectsOf_def)

end
